theory Spec2Isabelle
  imports Main "HOL-Library.Word" "HOL-Library.Multiset"
begin

unbundle bit_operations_syntax

section \<open>Shared data model of \<^verbatim>\<open>datanode/partition.go\<close>\<close>

text \<open>
  Go's \<^verbatim>\<open>error\<close> values. An error is built either by the partition code itself
  (\<^verbatim>\<open>errors.New\<close>, \<^verbatim>\<open>fmt.Errorf\<close>, wrapped by \<^verbatim>\<open>errors.Annotatef\<close>) or handed
  over by a collaborator (the operating system, the JSON codec, the storage
  engines, the master client); the latter are opaque and carry only their text.
\<close>

datatype error =
    ErrorNew string
  | Annotate error string
  | External string

fun error_text :: "error \<Rightarrow> string" where
  "error_text (ErrorNew m) = m"
| "error_text (Annotate e m) = m @ '': '' @ error_text e"
| "error_text (External m) = m"

type_synonym byte = "8 word"
type_synonym uint32 = "32 word"
type_synonym uint64 = "64 word"

section \<open>Deleting objects: \<^verbatim>\<open>DelObjects\<close>\<close>

text \<open>
  Modelled from the spec: \<^verbatim>\<open>storage.ObjectIdLen\<close> is declared in the storage package,
  which is not part of the sources at hand; the specification fixes the object-id
  encoding width at 8 bytes.
\<close>

definition ObjectIdLen :: nat where
  "ObjectIdLen = 8"

text \<open>
  \<^verbatim>\<open>binary.BigEndian.Uint64(b)\<close> reads \<^verbatim>\<open>b[0] .. b[7]\<close> and panics with an index
  error on a shorter slice; \<open>None\<close> is that panic.
\<close>

fun BigEndian_Uint64 :: "byte list \<Rightarrow> uint64 option" where
  "BigEndian_Uint64 (b0 # b1 # b2 # b3 # b4 # b5 # b6 # b7 # _) =
     Some (ucast b7 OR push_bit 8 (ucast b6) OR push_bit 16 (ucast b5) OR
           push_bit 24 (ucast b4) OR push_bit 32 (ucast b3) OR push_bit 40 (ucast b2) OR
           push_bit 48 (ucast b1) OR push_bit 56 (ucast b0))"
| "BigEndian_Uint64 _ = None"

text \<open>The slice expression \<^verbatim>\<open>buf[lo:hi]\<close>; \<open>None\<close> is the bounds panic.\<close>

definition slice :: "'a list \<Rightarrow> nat \<Rightarrow> nat \<Rightarrow> 'a list option" where
  "slice buf lo hi =
     (if lo \<le> hi \<and> hi \<le> length buf then Some (take (hi - lo) (drop lo buf)) else None)"

text \<open>
  The decoding loop of \<^verbatim>\<open>DelObjects\<close>:
  \<^verbatim>\<open>for i := 0; i < int(deleteBufSize/storage.ObjectIdLen); i++\<close>, appending one
  needle per round.
\<close>

function decodeNeedles :: "byte list \<Rightarrow> nat \<Rightarrow> uint64 list \<Rightarrow> uint64 list option" where
  "decodeNeedles deleteBuf i needles =
     (if i < length deleteBuf div ObjectIdLen then
        (case slice deleteBuf (i * ObjectIdLen) ((i + 1) * ObjectIdLen) of
           None \<Rightarrow> None
         | Some chunk \<Rightarrow>
             (case BigEndian_Uint64 chunk of
                None \<Rightarrow> None
              | Some needle \<Rightarrow> decodeNeedles deleteBuf (i + 1) (needles @ [needle])))
      else Some needles)"
  by pat_completeness auto
termination
  by (relation "measure (\<lambda>(deleteBuf, i, needles). length deleteBuf div ObjectIdLen - i)") auto

definition formatError :: error where
  "formatError =
     Annotate (ErrorNew ''unvalid objectLen for opsync delete object'') ''ApplyDelObjects Error''"

text \<open>
  The blob store is an external collaborator: its batch delete
  \<^verbatim>\<open>ApplyDelObjects(blobfileId, needles)\<close> is a parameter acting on the store's
  state \<open>'s\<close>, and an error it reports is known by its text only. The result of \<^verbatim>\<open>DelObjects\<close> is the returned error (if any) with the
  store afterwards; \<open>None\<close> stands for a run-time panic.
\<close>

definition DelObjects ::
  "(uint32 \<Rightarrow> uint64 list \<Rightarrow> 's \<Rightarrow> string option \<times> 's) \<Rightarrow> uint32 \<Rightarrow> byte list \<Rightarrow> 's
     \<Rightarrow> (error option \<times> 's) option" where
  "DelObjects ApplyDelObjects blobfileId deleteBuf store =
     (if length deleteBuf mod ObjectIdLen \<noteq> 0 then Some (Some formatError, store)
      else
        (case decodeNeedles deleteBuf 0 [] of
           None \<Rightarrow> None
         | Some needles \<Rightarrow>
             (case ApplyDelObjects blobfileId needles store of
                (Some err, store') \<Rightarrow>
                  Some (Some (Annotate (External err) ''ApplyDelObjects Error''), store')
              | (None, store') \<Rightarrow> Some (None, store'))))"


text \<open>
  The specification's wording of the wire format: an object id is the big-endian
  number written by its bytes.
\<close>

definition be_value :: "byte list \<Rightarrow> nat" where
  "be_value bs = foldl (\<lambda>a b. a * 256 + unat b) 0 bs"

section \<open>Strings: \<^verbatim>\<open>strconv.Itoa\<close>, \<^verbatim>\<open>strings.TrimSpace\<close>, \<^verbatim>\<open>strings.Split\<close>\<close>

definition digit_char :: "nat \<Rightarrow> char" where
  "digit_char n = ''0123456789'' ! n"

function nat_digits :: "nat \<Rightarrow> string" where
  "nat_digits n = (if n < 10 then [digit_char n] else nat_digits (n div 10) @ [digit_char (n mod 10)])"
  by pat_completeness auto
termination
  by (relation "measure id") auto

text \<open>Decimal rendering, as \<^verbatim>\<open>strconv.Itoa\<close> and the verb \<^verbatim>\<open>%v\<close> of \<^verbatim>\<open>fmt.Sprintf\<close> give it.\<close>

definition Itoa :: "int \<Rightarrow> string" where
  "Itoa i = (if i < 0 then CHR ''-'' # nat_digits (nat (- i)) else nat_digits (nat i))"

text \<open>
  \<^verbatim>\<open>strings.TrimSpace\<close> is library code. Strings are byte sequences; the white space
  modelled is the ASCII one (tab, line feed, vertical tab, form feed, carriage return,
  space). The library also strips the multi-byte UTF-8 encodings of the other Unicode
  white-space code points; those bytes are kept by this model.
\<close>

definition isSpace :: "char \<Rightarrow> bool" where
  "isSpace c = (c = CHR 0x09 \<or> c = CHR 0x0A \<or> c = CHR 0x0B \<or> c = CHR 0x0C \<or> c = CHR 0x0D \<or> c = CHR 0x20)"

definition TrimSpace :: "string \<Rightarrow> string" where
  "TrimSpace s = rev (dropWhile isSpace (rev (dropWhile isSpace s)))"

text \<open>
  \<^verbatim>\<open>strings.Split(s, sep)\<close> for a one-character separator: the pieces between the
  separators, one more than there are separators.
\<close>

fun Split :: "string \<Rightarrow> char \<Rightarrow> string list" where
  "Split [] sep = [[]]"
| "Split (c # cs) sep =
     (if c = sep then [] # Split cs sep
      else (c # hd (Split cs sep)) # tl (Split cs sep))"

section \<open>The meta record and its validation\<close>

record dataPartitionMeta =
  VolumeId :: string
  PartitionType :: string
  PartitionId :: uint32
  PartitionSize :: int
  CreateTime :: string

text \<open>
  \<^verbatim>\<open>Validate\<close> has a pointer receiver and overwrites two fields of the record before
  it checks them: the model returns the record as the method leaves it, with the error.
\<close>

definition Validate :: "dataPartitionMeta \<Rightarrow> dataPartitionMeta \<times> error option" where
  "Validate meta0 =
     (let meta1 = meta0\<lparr>VolumeId := TrimSpace (VolumeId meta0)\<rparr>;
          meta = meta1\<lparr>PartitionType := TrimSpace (PartitionType meta1)\<rparr>
      in if length (VolumeId meta) = 0 \<or> length (PartitionType meta) = 0 \<or>
            PartitionId meta = 0 \<or> PartitionSize meta = 0
         then (meta, Some (ErrorNew ''illegal data partition meta''))
         else (meta, None))"

section \<open>Partitions and their disk\<close>

text \<open>
  The fields of \<^verbatim>\<open>dataPartition\<close> that hold plain data. The store handles, the
  metrics recorder and the stop channel belong to collaborators and are not part of
  the record; the back pointer \<^verbatim>\<open>disk\<close> is the disk passed along with the partition.
\<close>

record dataPartition =
  volumeId :: string
  partitionId :: uint32
  partitionStatus :: int
  partitionSize :: int
  replicaHosts :: "string list"
  isLeader :: bool
  path :: string
  used :: int

text \<open>
  Modelled from the spec: the type \<^verbatim>\<open>Disk\<close> and its method \<^verbatim>\<open>AttachDataPartition\<close> are
  declared in a file of the package that is not among the sources. The disk has a
  path and a status, and holds a non-owning registry of its attached partitions.
\<close>

record Disk =
  Path :: string
  Status :: int
  attached :: "dataPartition list"

definition AttachDataPartition :: "Disk \<Rightarrow> dataPartition \<Rightarrow> Disk" where
  "AttachDataPartition disk dp = disk\<lparr>attached := attached disk @ [dp]\<rparr>"

text \<open>
  The constants of the packages \<^verbatim>\<open>proto\<close>, \<^verbatim>\<open>storage\<close> and \<^verbatim>\<open>master\<close> used by the
  partition code. Their declarations are not among the sources, so they are
  parameters of the model.
\<close>

record Consts =
  ReadWrite :: int
  ReadOnly :: int
  Unavaliable :: int
  TaskFail :: int
  BlobFileFileCount :: int
  MarkDeleteObject :: uint32
  AdminGetDataPartition :: string


text \<open>
  What the collaborators answer. The storage engines, the operating system, the JSON
  codec of the standard library, the clock and the master client are outside the
  partition code: each is a parameter, and an error of theirs is known by its text.
  \<^verbatim>\<open>LocalIP\<close> is a package variable set at start-up.
\<close>

record 'f Env =
  storage_NewExtentStore :: "string \<Rightarrow> int \<Rightarrow> string option"
  storage_NewBlobStore :: "string \<Rightarrow> int \<Rightarrow> string option"
  os_OpenFile :: "string \<Rightarrow> string option"
  file_Write :: "string \<Rightarrow> byte list \<Rightarrow> (nat \<times> string) option"
  ioutil_ReadFile_error :: "string \<Rightarrow> string"
  ioutil_ReadDir :: "string \<Rightarrow> string + uint64 list"
  json_Marshal :: "dataPartitionMeta \<Rightarrow> string + byte list"
  json_Unmarshal :: "byte list \<Rightarrow> string + dataPartitionMeta"
  json_Unmarshal_hosts :: "byte list \<Rightarrow> string + string list"
  path_Join :: "string \<Rightarrow> string \<Rightarrow> string"
  time_Now :: string
  MasterHelper_Request :: "string \<Rightarrow> string \<Rightarrow> (string \<times> string) list \<Rightarrow> string + byte list"
  LocalIP :: string
  extentStore_SnapShot :: "'f list \<times> string option"
  blobStore_Snapshot :: "'f list \<times> string option"

text \<open>The files the partition code reads and writes itself: the meta files, by path.\<close>

type_synonym files = "string \<rightharpoonup> byte list"

definition DataPartitionPrefix :: string where
  "DataPartitionPrefix = ''datapartition''"

definition DataPartitionMetaFileName :: string where
  "DataPartitionMetaFileName = ''META''"

section \<open>Construction: \<^verbatim>\<open>newDataPartition\<close>, \<^verbatim>\<open>CreateDataPartition\<close>, \<^verbatim>\<open>LoadDataPartition\<close>\<close>

text \<open>
  \<^verbatim>\<open>newDataPartition\<close> returns either \<^verbatim>\<open>(nil, err)\<close> or \<^verbatim>\<open>(partition, nil)\<close>, together
  with the disk as it leaves it. The two goroutines it starts on success (the status
  scheduler and the blob repair) run beside the caller and are not part of the value.
\<close>

definition newDataPartition ::
  "'f Env \<Rightarrow> Consts \<Rightarrow> string \<Rightarrow> uint32 \<Rightarrow> Disk \<Rightarrow> int \<Rightarrow> (error + dataPartition) \<times> Disk" where
  "newDataPartition env K volId partId disk psize =
     (let partition = \<lparr>
            volumeId = volId,
            partitionId = partId,
            partitionStatus = ReadWrite K,
            partitionSize = psize,
            replicaHosts = [],
            isLeader = False,
            path = path_Join env (Path disk)
                     (DataPartitionPrefix @ ''_'' @ Itoa (uint partId) @ ''_'' @ Itoa psize),
            used = 0 \<rparr>
      in case storage_NewExtentStore env (path partition) psize of
           Some err \<Rightarrow> (Inl (External err), disk)
         | None \<Rightarrow>
             (case storage_NewBlobStore env (path partition) psize of
                Some err \<Rightarrow> (Inl (External err), disk)
              | None \<Rightarrow> (Inr partition, AttachDataPartition disk partition)))"

text \<open>
  \<^verbatim>\<open>CreateDataPartition\<close> has the named results \<^verbatim>\<open>(dp, err)\<close>; every \<^verbatim>\<open>return\<close> hands
  back both as they stand, so the model returns both, with the disk and the files.
  The meta file is opened with \<^verbatim>\<open>O_CREATE|O_RDWR\<close> (no truncation) and written at
  offset 0: bytes of an older, longer file stay behind the new ones. A failed write
  has stored some prefix of the data.
\<close>

definition CreateDataPartition ::
  "'f Env \<Rightarrow> Consts \<Rightarrow> string \<Rightarrow> uint32 \<Rightarrow> Disk \<Rightarrow> int \<Rightarrow> string \<Rightarrow> files
     \<Rightarrow> dataPartition option \<times> error option \<times> Disk \<times> files" where
  "CreateDataPartition env K volId partId disk psize partitionType fs =
     (case newDataPartition env K volId partId disk psize of
        (Inl err, disk') \<Rightarrow> (None, Some err, disk', fs)
      | (Inr dp, disk') \<Rightarrow>
          (let metaFilePath = path_Join env (path dp) DataPartitionMetaFileName
           in case os_OpenFile env metaFilePath of
                Some err \<Rightarrow> (Some dp, Some (External err), disk', fs)
              | None \<Rightarrow>
                  (let old = (case fs metaFilePath of None \<Rightarrow> [] | Some bytes \<Rightarrow> bytes);
                       fs1 = fs(metaFilePath \<mapsto> old);
                       meta = \<lparr> VolumeId = volId,
                                PartitionType = partitionType,
                                PartitionId = partId,
                                PartitionSize = psize,
                                CreateTime = time_Now env \<rparr>
                   in case json_Marshal env meta of
                        Inl err \<Rightarrow> (Some dp, Some (External err), disk', fs1)
                      | Inr metaData \<Rightarrow>
                          (case file_Write env metaFilePath metaData of
                             Some (n, err) \<Rightarrow>
                               (Some dp, Some (External err), disk',
                                fs1(metaFilePath \<mapsto> take n metaData @ drop n old))
                           | None \<Rightarrow>
                               (Some dp, None, disk',
                                fs1(metaFilePath \<mapsto> metaData @ drop (length metaData) old))))))"

definition LoadDataPartition ::
  "'f Env \<Rightarrow> Consts \<Rightarrow> string \<Rightarrow> Disk \<Rightarrow> files \<Rightarrow> dataPartition option \<times> error option \<times> Disk" where
  "LoadDataPartition env K partitionDir disk fs =
     (let metaFilePath = path_Join env partitionDir DataPartitionMetaFileName
      in case fs metaFilePath of
           None \<Rightarrow> (None, Some (External (ioutil_ReadFile_error env metaFilePath)), disk)
         | Some metaFileData \<Rightarrow>
             (case json_Unmarshal env metaFileData of
                Inl err \<Rightarrow> (None, Some (External err), disk)
              | Inr meta0 \<Rightarrow>
                  (case Validate meta0 of
                     (meta, Some err) \<Rightarrow> (None, Some err, disk)
                   | (meta, None) \<Rightarrow>
                       (case newDataPartition env K (VolumeId meta) (PartitionId meta) disk
                               (PartitionSize meta) of
                          (Inl err, disk') \<Rightarrow> (None, Some err, disk')
                        | (Inr dp, disk') \<Rightarrow> (Some dp, None, disk')))))"


section \<open>The status tick: \<^verbatim>\<open>statusUpdate\<close>\<close>

text \<open>
  \<^verbatim>\<open>computeUsage\<close> adds the file sizes in an \<^verbatim>\<open>int64\<close>, which wraps, and leaves
  \<^verbatim>\<open>used\<close> alone when the directory cannot be read.
\<close>

definition computeUsage :: "'f Env \<Rightarrow> dataPartition \<Rightarrow> dataPartition" where
  "computeUsage env dp =
     (case ioutil_ReadDir env (path dp) of
        Inl err \<Rightarrow> dp
      | Inr files \<Rightarrow> dp\<lparr>used := sint (foldl (\<lambda>used file. used + file) 0 files)\<rparr>)"

text \<open>
  \<^verbatim>\<open>statusUpdate\<close> takes the minimum through \<^verbatim>\<open>float64\<close>. The conversion
  \<^verbatim>\<open>float64(x)\<close> of an integer keeps 53 significant bits, rounding to nearest, ties
  to even; its value is again an integer, which is what \<open>float64_of_int\<close> returns.
\<close>

function bit_length :: "int \<Rightarrow> nat" where
  "bit_length n = (if n \<le> 0 then 0 else Suc (bit_length (n div 2)))"
  by pat_completeness auto
termination
  by (relation "measure nat") auto

definition float64_of_int :: "int \<Rightarrow> int" where
  "float64_of_int x =
     (let a = \<bar>x\<bar> in
      if a < 2 ^ 53 then x
      else
        (let e = bit_length a - 53;
             q = a div 2 ^ e;
             r = a mod 2 ^ e;
             q' = (if 2 * r > 2 ^ e \<or> (2 * r = 2 ^ e \<and> odd q) then q + 1 else q)
         in sgn x * (q' * 2 ^ e)))"

text \<open>
  \<^verbatim>\<open>int(f)\<close> of an integral float is that integer when it fits 64 bits. The only
  other value reachable from an \<^verbatim>\<open>int\<close> is \<open>2 ^ 63\<close>, where the language leaves the
  result to the implementation; amd64 yields the least \<^verbatim>\<open>int64\<close>.
\<close>

definition int_of_float64 :: "int \<Rightarrow> int" where
  "int_of_float64 f = (if f < 2 ^ 63 then f else - (2 ^ 63))"

text \<open>
  The second component says whether the blob store was told to move its unavailable
  files (\<^verbatim>\<open>MoveBlobFileToUnavailChan\<close>), which only a leader does.
\<close>

definition statusUpdate :: "'f Env \<Rightarrow> Consts \<Rightarrow> Disk \<Rightarrow> dataPartition \<Rightarrow> dataPartition \<times> bool" where
  "statusUpdate env K disk dp0 =
     (let dp = computeUsage env dp0;
          status = (if used dp \<ge> partitionSize dp then ReadOnly K else ReadWrite K)
      in (dp\<lparr>partitionStatus :=
                int_of_float64 (min (float64_of_int status) (float64_of_int (Status disk)))\<rparr>,
          isLeader dp))"

section \<open>Leader and replicas: \<^verbatim>\<open>fetchReplicaHosts\<close>, \<^verbatim>\<open>updateReplicaHosts\<close>\<close>

text \<open>
  The results are \<^verbatim>\<open>(isLeader, replicaHosts, err)\<close>; a \<^verbatim>\<open>nil\<close> slice is the empty list.
  \<open>json_Unmarshal_hosts\<close> stands for decoding the answer into a \<^verbatim>\<open>master.DataPartition\<close>
  and reading its field \<^verbatim>\<open>PersistenceHosts\<close>.
\<close>

definition fetchReplicaHosts ::
  "'f Env \<Rightarrow> Consts \<Rightarrow> dataPartition \<Rightarrow> bool \<times> string list \<times> error option" where
  "fetchReplicaHosts env K dp =
     (let params = [(''id'', Itoa (uint (partitionId dp)))]
      in case MasterHelper_Request env ''GET'' (AdminGetDataPartition K) params of
           Inl err \<Rightarrow> (False, [], Some (External err))
         | Inr HostsBuf \<Rightarrow>
             (case json_Unmarshal_hosts env HostsBuf of
                Inl err \<Rightarrow> (False, [], Some (External err))
              | Inr PersistenceHosts \<Rightarrow>
                  (let replicaHosts = foldl (\<lambda>hosts host. hosts @ [host]) [] PersistenceHosts;
                       isLeader =
                         (case PersistenceHosts of
                            [] \<Rightarrow> False
                          | leaderAddr # _ \<Rightarrow>
                              (let leaderAddrParts = Split leaderAddr CHR '':''
                               in length leaderAddrParts = 2 \<and>
                                  TrimSpace (hd leaderAddrParts) = LocalIP env))
                   in (isLeader, replicaHosts, None))))"

fun compareReplicaHosts_loop :: "string list \<Rightarrow> string list \<Rightarrow> bool" where
  "compareReplicaHosts_loop (x # xs) (y # ys) =
     (if x \<noteq> y then False else compareReplicaHosts_loop xs ys)"
| "compareReplicaHosts_loop _ _ = True"

definition compareReplicaHosts :: "string list \<Rightarrow> string list \<Rightarrow> bool" where
  "compareReplicaHosts v1 v2 =
     (if length v1 = length v2 then compareReplicaHosts_loop v1 v2 else False)"

text \<open>
  The results are the partition as the method leaves it, the error, and whether the
  membership change was logged.
\<close>

definition updateReplicaHosts ::
  "'f Env \<Rightarrow> Consts \<Rightarrow> dataPartition \<Rightarrow> dataPartition \<times> error option \<times> bool" where
  "updateReplicaHosts env K dp0 =
     (let dp = dp0\<lparr>isLeader := False\<rparr>
      in case fetchReplicaHosts env K dp of
           (isLeader', replicas, Some err) \<Rightarrow> (dp, Some err, False)
         | (isLeader', replicas, None) \<Rightarrow>
             (dp\<lparr>isLeader := isLeader', replicaHosts := replicas\<rparr>, None,
              \<not> compareReplicaHosts (replicaHosts dp) replicas))"



section \<open>The health snapshot: \<^verbatim>\<open>Load\<close>\<close>

record 'f LoadDataPartitionResponse =
  resp_PartitionId :: uint64
  resp_PartitionStatus :: int
  resp_Used :: uint64
  resp_PartitionSnapshot :: "'f list"
  resp_Status :: int
  resp_Result :: string

text \<open>
  Both snapshot calls return a value and an error, as Go functions do; the response
  starts as the zero value of its type.
\<close>

definition Load :: "'f Env \<Rightarrow> Consts \<Rightarrow> dataPartition \<Rightarrow> 'f LoadDataPartitionResponse" where
  "Load env K dp =
     (let response0 = \<lparr> resp_PartitionId = 0, resp_PartitionStatus = 0, resp_Used = 0,
                        resp_PartitionSnapshot = [], resp_Status = 0, resp_Result = [] \<rparr>;
          response1 = response0\<lparr>resp_PartitionId := ucast (partitionId dp)\<rparr>;
          response2 = response1\<lparr>resp_PartitionStatus := partitionStatus dp\<rparr>;
          response3 = response2\<lparr>resp_Used := word_of_int (used dp)\<rparr>;
          response = response3\<lparr>resp_PartitionSnapshot := fst (extentStore_SnapShot env)\<rparr>
      in case snd (extentStore_SnapShot env) of
           Some err \<Rightarrow> response\<lparr>resp_Status := TaskFail K, resp_Result := error_text (External err)\<rparr>
         | None \<Rightarrow>
             (case blobStore_Snapshot env of
                (blobSnapshot, Some err) \<Rightarrow>
                  response\<lparr>resp_Status := TaskFail K, resp_Result := error_text (External err)\<rparr>
              | (blobSnapshot, None) \<Rightarrow>
                  response\<lparr>resp_PartitionSnapshot := resp_PartitionSnapshot response @ blobSnapshot\<rparr>))"


section \<open>Reading objects: \<^verbatim>\<open>GetObjects\<close>\<close>

text \<open>
  Modelled from the spec: the type \<^verbatim>\<open>storage.Object\<close> is declared in the storage
  package. An object reference has a 64-bit object id and a size field, where a
  reserved value (\<^verbatim>\<open>storage.MarkDeleteObject\<close>) says that the object is marked deleted.
\<close>

record Object =
  Oid :: uint64
  Size :: uint32

text \<open>
  The loop \<^verbatim>\<open>for startOid <= lastOid { ...; startOid++ }\<close> counts in \<^verbatim>\<open>uint64\<close>, whose
  increment wraps; nothing bounds the number of rounds, so the loop is a partial
  function and \<open>None\<close> says that it does not return. The lookup of the blob store,
  \<^verbatim>\<open>GetObject(blobfileID, oid)\<close>, is a parameter.
\<close>

partial_function (option) GetObjects_loop ::
  "(uint32 \<Rightarrow> uint64 \<Rightarrow> string + Object) \<Rightarrow> Consts \<Rightarrow> uint32 \<Rightarrow> uint64 \<Rightarrow> uint64 \<Rightarrow> Object list
     \<Rightarrow> Object list option" where
  [code]: "GetObjects_loop GetObject K blobfileID startOid lastOid objects =
     (if startOid \<le> lastOid then
        GetObjects_loop GetObject K blobfileID (startOid + 1) lastOid
          (objects @ [case GetObject blobfileID startOid of
                        Inl err \<Rightarrow> \<lparr> Oid = startOid, Size = MarkDeleteObject K \<rparr>
                      | Inr needle \<Rightarrow> needle])
      else Some objects)"

definition GetObjects ::
  "(uint32 \<Rightarrow> uint64 \<Rightarrow> string + Object) \<Rightarrow> Consts \<Rightarrow> uint32 \<Rightarrow> uint64 \<Rightarrow> uint64
     \<Rightarrow> Object list option" where
  "GetObjects GetObject K blobfileID startOid lastOid =
     GetObjects_loop GetObject K blobfileID startOid lastOid []"

section \<open>Merging an extent repair bundle: \<^verbatim>\<open>MergeExtentStoreRepair\<close>\<close>

















section \<open>A sample environment\<close>

text \<open>
  Sample values for the examples below: the three partition states in the order the
  specification gives them (the most restrictive is the least), and collaborators
  that all succeed. The sample codec does not look at its argument; an example that
  needs a particular answer overrides the field.
\<close>

definition sample_K :: Consts where
  "sample_K = \<lparr> ReadWrite = 2, ReadOnly = 1, Unavaliable = - 1, TaskFail = 2,
                 BlobFileFileCount = 10, MarkDeleteObject = 4294967295,
                 AdminGetDataPartition = ''/dataPartition/get'' \<rparr>"

definition sample_meta :: dataPartitionMeta where
  "sample_meta = \<lparr> VolumeId = ''vol1'', PartitionType = ''extent'', PartitionId = 7,
                    PartitionSize = 1024, CreateTime = ''2018-06-01 12:00:00'' \<rparr>"

definition sample_env :: "nat Env" where
  "sample_env = \<lparr>
     storage_NewExtentStore = (\<lambda>p n. None),
     storage_NewBlobStore = (\<lambda>p n. None),
     os_OpenFile = (\<lambda>p. None),
     file_Write = (\<lambda>p bytes. None),
     ioutil_ReadFile_error = (\<lambda>p. ''no such file or directory''),
     ioutil_ReadDir = (\<lambda>p. Inr [100, 200]),
     json_Marshal = (\<lambda>meta. Inr [123, 125]),
     json_Unmarshal = (\<lambda>bytes. Inr sample_meta),
     json_Unmarshal_hosts = (\<lambda>bytes. Inr [''10.0.0.1:6000'', ''10.0.0.2:6000'']),
     path_Join = (\<lambda>dir name. dir @ ''/'' @ name),
     time_Now = ''2018-06-01 12:00:00'',
     MasterHelper_Request = (\<lambda>method url params. Inr []),
     LocalIP = ''10.0.0.1'',
     extentStore_SnapShot = ([1, 2, 3], None),
     blobStore_Snapshot = ([4, 5], None) \<rparr>"

definition sample_disk :: Disk where
  "sample_disk = \<lparr> Path = ''/data'', Status = 2, attached = [] \<rparr>"

definition sample_dp :: dataPartition where
  "sample_dp = \<lparr> volumeId = ''vol1'', partitionId = 7, partitionStatus = 2,
                  partitionSize = 1024, replicaHosts = [''10.0.0.9:6000''], isLeader = True,
                  path = ''/data/datapartition_7_1024'', used = 0 \<rparr>"



declare nat_digits.simps [simp del]
declare decodeNeedles.simps [simp del]
declare bit_length.simps [simp del]

section \<open>Properties of \<^verbatim>\<open>DelObjects\<close>\<close>

lemma nat_or_push_bit:
  fixes a b :: nat
  assumes "a < 2 ^ n"
  shows "a OR push_bit n b = a + b * 2 ^ n"
proof -
  have "take_bit n a = a" using assms by (simp add: take_bit_nat_eq_self)
  then have "a AND push_bit n b = take_bit n a AND push_bit n b" by simp
  also have "\<dots> = 0"
    by (rule bit_eqI) (auto simp add: bit_and_iff bit_take_bit_iff bit_push_bit_iff)
  finally have "a AND push_bit n b = 0" .
  then show ?thesis
    by (simp add: disjunctive_add_eq_or[symmetric] push_bit_eq_mult)
qed

lemma unat_byte_less: "unat (b::byte) < 256"
  using unsigned_less[of b] by simp

lemma BigEndian_Uint64_value8:
  fixes b0 b1 b2 b3 b4 b5 b6 b7 :: byte
  shows "\<exists>w. BigEndian_Uint64 [b0,b1,b2,b3,b4,b5,b6,b7] = Some w \<and> unat w = be_value [b0,b1,b2,b3,b4,b5,b6,b7]"
proof -
  define N where "N = unat b7 OR push_bit 8 (unat b6) OR push_bit 16 (unat b5) OR
           push_bit 24 (unat b4) OR push_bit 32 (unat b3) OR push_bit 40 (unat b2) OR
           push_bit 48 (unat b1) OR push_bit 56 (unat b0)"
  have w: "BigEndian_Uint64 [b0,b1,b2,b3,b4,b5,b6,b7] = Some (of_nat N)"
    unfolding N_def by (simp add: of_nat_or_eq of_nat_push_bit)
  have "N = unat b7 OR push_bit 8 (unat b6 OR push_bit 8 (unat b5 OR push_bit 8 (unat b4 OR
       push_bit 8 (unat b3 OR push_bit 8 (unat b2 OR push_bit 8 (unat b1 OR push_bit 8 (unat b0)))))))"
    unfolding N_def by (simp add: push_bit_or push_bit_push_bit)
  also have "\<dots> = be_value [b0,b1,b2,b3,b4,b5,b6,b7]"
    using unat_byte_less[of b0] unat_byte_less[of b1] unat_byte_less[of b2] unat_byte_less[of b3]
      unat_byte_less[of b4] unat_byte_less[of b5] unat_byte_less[of b6] unat_byte_less[of b7]
    by (simp add: nat_or_push_bit be_value_def algebra_simps)
  finally have N: "N = be_value [b0,b1,b2,b3,b4,b5,b6,b7]" .
  have "be_value [b0,b1,b2,b3,b4,b5,b6,b7] < 2 ^ 64"
    using unat_byte_less[of b0] unat_byte_less[of b1] unat_byte_less[of b2] unat_byte_less[of b3]
      unat_byte_less[of b4] unat_byte_less[of b5] unat_byte_less[of b6] unat_byte_less[of b7]
    by (simp add: be_value_def)
  then have "unat (of_nat N :: uint64) = N"
    using N by (simp add: unat_of_nat)
  with w N show ?thesis by simp
qed

lemma length8_cases:
  assumes "length (bs :: 'a list) = 8"
  obtains b0 b1 b2 b3 b4 b5 b6 b7 where "bs = [b0,b1,b2,b3,b4,b5,b6,b7]"
  using assms by (auto simp: length_Suc_conv eval_nat_numeral)

lemma BigEndian_Uint64_value:
  assumes "length bs = 8"
  shows "\<exists>w. BigEndian_Uint64 bs = Some w \<and> unat w = be_value bs"
proof -
  from assms obtain b0 b1 b2 b3 b4 b5 b6 b7 where "bs = [b0,b1,b2,b3,b4,b5,b6,b7]"
    by (rule length8_cases)
  then show ?thesis using BigEndian_Uint64_value8 by simp
qed

lemma slice_chunk:
  assumes "i < length buf div 8"
  shows "slice buf (i * ObjectIdLen) ((i + 1) * ObjectIdLen) = Some (take 8 (drop (8 * i) buf))"
    and "length (take 8 (drop (8 * i) buf)) = 8"
proof -
  from assms have "8 * i + 8 \<le> length buf" by presburger
  then show "slice buf (i * ObjectIdLen) ((i + 1) * ObjectIdLen) = Some (take 8 (drop (8 * i) buf))"
    and "length (take 8 (drop (8 * i) buf)) = 8"
    by (simp_all add: slice_def ObjectIdLen_def mult.commute)
qed

lemma decodeNeedles_value:
  "i \<le> length buf div 8 \<Longrightarrow>
   \<exists>ids. decodeNeedles buf i acc = Some (acc @ ids) \<and>
         map unat ids = map (\<lambda>k. be_value (take 8 (drop (8 * k) buf))) [i..<length buf div 8]"
proof (induction buf i acc rule: decodeNeedles.induct)
  case (1 deleteBuf i needles)
  show ?case
  proof (cases "i < length deleteBuf div 8")
    case False
    with "1.prems" have "i = length deleteBuf div 8" by simp
    then show ?thesis by (subst decodeNeedles.simps) (simp add: ObjectIdLen_def)
  next
    case True
    let ?chunk = "take 8 (drop (8 * i) deleteBuf)"
    from slice_chunk[OF True] have sl: "slice deleteBuf (i * ObjectIdLen) ((i + 1) * ObjectIdLen) = Some ?chunk"
      and len: "length ?chunk = 8" by simp_all
    from BigEndian_Uint64_value[OF len] obtain w where w: "BigEndian_Uint64 ?chunk = Some w"
      and uw: "unat w = be_value ?chunk" by blast
    from True have lt: "i < length deleteBuf div ObjectIdLen" by (simp add: ObjectIdLen_def)
    from "1.IH"[OF lt sl w] True obtain ids where
      ids: "decodeNeedles deleteBuf (i + 1) (needles @ [w]) = Some ((needles @ [w]) @ ids)"
      and val: "map unat ids = map (\<lambda>k. be_value (take 8 (drop (8 * k) deleteBuf))) [i + 1..<length deleteBuf div 8]"
      by auto
    have "decodeNeedles deleteBuf i needles = Some (needles @ (w # ids))"
      using lt sl w ids by (subst decodeNeedles.simps) simp
    moreover have "map unat (w # ids) = map (\<lambda>k. be_value (take 8 (drop (8 * k) deleteBuf))) [i..<length deleteBuf div 8]"
      using True uw val by (simp add: upt_conv_Cons)
    ultimately show ?thesis by blast
  qed
qed

text \<open>
  Claim C9. \<^verbatim>\<open>DelObjects\<close> fails with the format error exactly when the length of the
  buffer is not a multiple of 8, and then the blob store is left as it was. For a
  valid buffer it decodes \<open>len / 8\<close> object ids, the \<open>i\<close>-th being the big-endian
  number written by bytes \<open>8 i .. 8 i + 7\<close>, and hands them to the blob store in one
  batch delete, whose outcome is the outcome of the call.
\<close>

theorem DelObjects_format_and_batch:
  "(length deleteBuf mod 8 \<noteq> 0 \<longrightarrow>
      DelObjects ApplyDelObjects blobfileId deleteBuf store = Some (Some formatError, store)) \<and>
   (length deleteBuf mod 8 = 0 \<longrightarrow>
      (\<exists>needles. length needles = length deleteBuf div 8 \<and>
         map unat needles =
           map (\<lambda>i. be_value (take 8 (drop (8 * i) deleteBuf))) [0..<length deleteBuf div 8] \<and>
         DelObjects ApplyDelObjects blobfileId deleteBuf store =
           Some (map_option (\<lambda>err. Annotate (External err) ''ApplyDelObjects Error'')
                   (fst (ApplyDelObjects blobfileId needles store)),
                 snd (ApplyDelObjects blobfileId needles store)))) \<and>
   ((\<exists>store'. DelObjects ApplyDelObjects blobfileId deleteBuf store = Some (Some formatError, store'))
      \<longleftrightarrow> length deleteBuf mod 8 \<noteq> 0)"
proof -
  have bad: "DelObjects ApplyDelObjects blobfileId deleteBuf store = Some (Some formatError, store)"
    if "length deleteBuf mod 8 \<noteq> 0"
    using that by (simp add: DelObjects_def ObjectIdLen_def)
  have good: "\<exists>needles. length needles = length deleteBuf div 8 \<and>
         map unat needles =
           map (\<lambda>i. be_value (take 8 (drop (8 * i) deleteBuf))) [0..<length deleteBuf div 8] \<and>
         DelObjects ApplyDelObjects blobfileId deleteBuf store =
           Some (map_option (\<lambda>err. Annotate (External err) ''ApplyDelObjects Error'')
                   (fst (ApplyDelObjects blobfileId needles store)),
                 snd (ApplyDelObjects blobfileId needles store))"
    if m: "length deleteBuf mod 8 = 0"
  proof -
    from decodeNeedles_value[of 0 deleteBuf "[]"] obtain ids where
      d: "decodeNeedles deleteBuf 0 [] = Some ids"
      and v: "map unat ids = map (\<lambda>k. be_value (take 8 (drop (8 * k) deleteBuf))) [0..<length deleteBuf div 8]"
      by auto
    from v have "length (map unat ids) = length [0..<length deleteBuf div 8]" by simp
    then have l: "length ids = length deleteBuf div 8" by simp
    have "DelObjects ApplyDelObjects blobfileId deleteBuf store =
           Some (map_option (\<lambda>err. Annotate (External err) ''ApplyDelObjects Error'')
                   (fst (ApplyDelObjects blobfileId ids store)),
                 snd (ApplyDelObjects blobfileId ids store))"
      using m d by (cases "ApplyDelObjects blobfileId ids store")
        (auto simp add: DelObjects_def ObjectIdLen_def split: option.splits)
    with l v show ?thesis by blast
  qed
  have iff: "(\<exists>store'. DelObjects ApplyDelObjects blobfileId deleteBuf store = Some (Some formatError, store'))
      \<longleftrightarrow> length deleteBuf mod 8 \<noteq> 0"
  proof (cases "length deleteBuf mod 8 = 0")
    case False
    with bad show ?thesis by blast
  next
    case True
    from good[OF True] obtain needles where
      "DelObjects ApplyDelObjects blobfileId deleteBuf store =
           Some (map_option (\<lambda>err. Annotate (External err) ''ApplyDelObjects Error'')
                   (fst (ApplyDelObjects blobfileId needles store)),
                 snd (ApplyDelObjects blobfileId needles store))" by blast
    then show ?thesis using True
      by (cases "fst (ApplyDelObjects blobfileId needles store)") (auto simp add: formatError_def)
  qed
  from bad good iff show ?thesis by blast
qed

text \<open>
  A 16-byte buffer decodes to exactly two ids, in encoded order; a 3-byte buffer is
  refused and the store is not touched.
\<close>

theorem DelObjects_format_and_batch_witness:
  "length [0, 0, 0, 0, 0, 0, 1, 2, 0, 0, 0, 0, 0, 0, 0, 7 :: byte] mod 8 = 0 \<and>
   DelObjects (\<lambda>b ids log. (None, log @ [(b, ids)])) 3 [0, 0, 0, 0, 0, 0, 1, 2, 0, 0, 0, 0, 0, 0, 0, 7] []
     = Some (None, [(3, [258, 7])]) \<and>
   length [1, 2, 3 :: byte] mod 8 \<noteq> 0 \<and>
   DelObjects (\<lambda>b ids log. (None, log @ [(b, ids)])) 3 [1, 2, 3] ([] :: (uint32 \<times> uint64 list) list)
     = Some (Some formatError, [])"
proof -
  let ?A = "\<lambda>(b :: uint32) (ids :: uint64 list) log. (None :: string option, log @ [(b, ids)])"
  let ?buf = "[0, 0, 0, 0, 0, 0, 1, 2, 0, 0, 0, 0, 0, 0, 0, 7 :: byte]"
  have len: "length ?buf mod 8 = 0" by simp
  have len3: "length [1, 2, 3 :: byte] mod 8 \<noteq> 0" by simp
  have "\<exists>needles. length needles = 2 \<and>
      map unat needles = map (\<lambda>i. be_value (take 8 (drop (8 * i) ?buf))) [0, 1] \<and>
      DelObjects ?A 3 ?buf [] = Some (None, [(3, needles)])"
    using conjunct1[OF conjunct2[OF DelObjects_format_and_batch[of ?buf ?A 3 "[]"]],
        rule_format, OF len]
    by (simp add: upt_conv_Cons)
  then obtain needles where l: "length needles = 2"
    and v: "map unat needles = map (\<lambda>i. be_value (take 8 (drop (8 * i) ?buf))) [0, 1]"
    and r: "DelObjects ?A 3 ?buf [] = Some (None, [(3, needles)])"
    by blast
  from l obtain x y where n: "needles = [x, y]"
    by (auto simp add: length_Suc_conv numeral_2_eq_2)
  from v n have "x = 258 \<and> y = 7"
    by (simp add: be_value_def word_unat_eq_iff)
  with n r have 1: "DelObjects ?A 3 ?buf [] = Some (None, [(3, [258, 7])])" by simp
  from conjunct1[OF DelObjects_format_and_batch[of "[1, 2, 3]" ?A 3 "[]"], rule_format, OF len3]
  have 2: "DelObjects ?A 3 [1, 2, 3] [] = Some (Some formatError, [])" .
  from 1 2 len len3 show ?thesis by blast
qed


section \<open>Properties of meta validation\<close>




lemma newDataPartition_fields:
  "newDataPartition env K v p disk sz = (Inr dp, disk') \<Longrightarrow>
     volumeId dp = v \<and> partitionId dp = p \<and> partitionSize dp = sz \<and>
     disk' = AttachDataPartition disk dp"
  by (auto simp add: newDataPartition_def Let_def split: option.splits)

lemma newDataPartition_error:
  "newDataPartition env K v p disk sz = (Inl err, disk') \<Longrightarrow> disk' = disk"
  by (auto simp add: newDataPartition_def Let_def split: option.splits)




section \<open>Properties of leader resolution\<close>

lemma fetchReplicaHosts_error:
  "fetchReplicaHosts env K dp = (l, r, Some err) \<Longrightarrow>
     (\<exists>e. err = External e \<and>
        (MasterHelper_Request env ''GET'' (AdminGetDataPartition K)
           [(''id'', Itoa (uint (partitionId dp)))] = Inl e \<or>
         (\<exists>buf. MasterHelper_Request env ''GET'' (AdminGetDataPartition K)
                  [(''id'', Itoa (uint (partitionId dp)))] = Inr buf \<and>
                json_Unmarshal_hosts env buf = Inl e)))"
  by (auto simp add: fetchReplicaHosts_def Let_def split: sum.splits)

lemma fetchReplicaHosts_query_failed:
  assumes "MasterHelper_Request env ''GET'' (AdminGetDataPartition K)
             [(''id'', Itoa (uint (partitionId dp)))] = Inl e \<or>
           (\<exists>buf. MasterHelper_Request env ''GET'' (AdminGetDataPartition K)
                    [(''id'', Itoa (uint (partitionId dp)))] = Inr buf \<and>
                  json_Unmarshal_hosts env buf = Inl e)"
  shows "fetchReplicaHosts env K dp = (False, [], Some (External e))"
  using assms by (auto simp add: fetchReplicaHosts_def Let_def split: sum.splits)

text \<open>
  Claim C6. If the membership query fails (the request itself, or the decoding of
  its answer), \<^verbatim>\<open>updateReplicaHosts\<close> returns that error and leaves the partition not a
  leader, with the replica list it had before the call.
\<close>

theorem updateReplicaHosts_query_failure:
  assumes "MasterHelper_Request env ''GET'' (AdminGetDataPartition K)
             [(''id'', Itoa (uint (partitionId dp)))] = Inl e \<or>
           (\<exists>buf. MasterHelper_Request env ''GET'' (AdminGetDataPartition K)
                    [(''id'', Itoa (uint (partitionId dp)))] = Inr buf \<and>
                  json_Unmarshal_hosts env buf = Inl e)"
  shows "\<exists>dp'. updateReplicaHosts env K dp = (dp', Some (External e), False) \<and>
               isLeader dp' = False \<and> replicaHosts dp' = replicaHosts dp"
proof -
  have "partitionId (dp\<lparr>isLeader := False\<rparr>) = partitionId dp" by simp
  with assms have "fetchReplicaHosts env K (dp\<lparr>isLeader := False\<rparr>) = (False, [], Some (External e))"
    using fetchReplicaHosts_query_failed[of env K "dp\<lparr>isLeader := False\<rparr>" e] by simp
  then have "updateReplicaHosts env K dp = (dp\<lparr>isLeader := False\<rparr>, Some (External e), False)"
    by (simp add: updateReplicaHosts_def Let_def)
  then show ?thesis by simp
qed

text \<open>
  A leader with one known replica, and a master that cannot be reached.
\<close>

theorem updateReplicaHosts_query_failure_witness:
  "MasterHelper_Request (sample_env\<lparr>MasterHelper_Request := \<lambda>method url params. Inl ''connection refused''\<rparr>)
     ''GET'' (AdminGetDataPartition sample_K) [(''id'', Itoa (uint (partitionId sample_dp)))]
     = Inl ''connection refused'' \<and>
   isLeader sample_dp \<and>
   updateReplicaHosts (sample_env\<lparr>MasterHelper_Request := \<lambda>method url params. Inl ''connection refused''\<rparr>)
     sample_K sample_dp
     = (sample_dp\<lparr>isLeader := False\<rparr>, Some (External ''connection refused''), False) \<and>
   replicaHosts (sample_dp\<lparr>isLeader := False\<rparr>) = [''10.0.0.9:6000'']"
proof -
  let ?env = "sample_env\<lparr>MasterHelper_Request := \<lambda>method url params. Inl ''connection refused''\<rparr>"
  have q: "MasterHelper_Request ?env ''GET'' (AdminGetDataPartition sample_K)
     [(''id'', Itoa (uint (partitionId sample_dp)))] = Inl ''connection refused''"
    by simp
  from updateReplicaHosts_query_failure[of ?env sample_K sample_dp "''connection refused''"] q
  obtain dp' where u: "updateReplicaHosts ?env sample_K sample_dp = (dp', Some (External ''connection refused''), False)"
    and l: "isLeader dp' = False" and r: "replicaHosts dp' = replicaHosts sample_dp"
    by blast
  have "fst (updateReplicaHosts ?env sample_K sample_dp) = sample_dp\<lparr>isLeader := False\<rparr>"
    by (simp add: updateReplicaHosts_def fetchReplicaHosts_def Let_def)
  with u have "dp' = sample_dp\<lparr>isLeader := False\<rparr>" by simp
  with u r q show ?thesis by (simp add: sample_dp_def)
qed

lemma Split_not_Nil: "Split s sep \<noteq> []"
  by (induction s) simp_all








section \<open>Properties of \<^verbatim>\<open>Load\<close>\<close>

text \<open>
  Claim C1, as amended. If either snapshot call fails, the response of \<^verbatim>\<open>Load\<close> has the
  failure status and carries the error text. Its snapshot field then holds what the
  extent store's call returned with its result: after a failure of the blob store,
  the extent snapshot obtained before, and nothing of the blob store.
\<close>

theorem Load_failure_response:
  "(snd (extentStore_SnapShot env) = Some err \<longrightarrow>
      resp_Status (Load env K dp) = TaskFail K \<and>
      resp_Result (Load env K dp) = err \<and>
      resp_PartitionSnapshot (Load env K dp) = fst (extentStore_SnapShot env)) \<and>
   (snd (extentStore_SnapShot env) = None \<and> snd (blobStore_Snapshot env) = Some err \<longrightarrow>
      resp_Status (Load env K dp) = TaskFail K \<and>
      resp_Result (Load env K dp) = err \<and>
      resp_PartitionSnapshot (Load env K dp) = fst (extentStore_SnapShot env))"
  by (cases "blobStore_Snapshot env") (simp add: Load_def Let_def)

text \<open>
  A failing extent store and a failing blob store, each with the other one working.
\<close>

theorem Load_failure_response_witness:
  "snd (extentStore_SnapShot (sample_env\<lparr>extentStore_SnapShot := ([], Some ''extent store closed'')\<rparr>))
     = Some ''extent store closed'' \<and>
   resp_Status (Load (sample_env\<lparr>extentStore_SnapShot := ([], Some ''extent store closed'')\<rparr>)
     sample_K sample_dp) = 2 \<and>
   resp_Result (Load (sample_env\<lparr>extentStore_SnapShot := ([], Some ''extent store closed'')\<rparr>)
     sample_K sample_dp) = ''extent store closed'' \<and>
   resp_PartitionSnapshot (Load (sample_env\<lparr>extentStore_SnapShot := ([], Some ''extent store closed'')\<rparr>)
     sample_K sample_dp) = [] \<and>
   snd (extentStore_SnapShot (sample_env\<lparr>blobStore_Snapshot := ([], Some ''blob store closed'')\<rparr>))
     = None \<and>
   snd (blobStore_Snapshot (sample_env\<lparr>blobStore_Snapshot := ([], Some ''blob store closed'')\<rparr>))
     = Some ''blob store closed'' \<and>
   resp_Status (Load (sample_env\<lparr>blobStore_Snapshot := ([], Some ''blob store closed'')\<rparr>)
     sample_K sample_dp) = 2 \<and>
   resp_Result (Load (sample_env\<lparr>blobStore_Snapshot := ([], Some ''blob store closed'')\<rparr>)
     sample_K sample_dp) = ''blob store closed''"
proof -
  let ?e1 = "sample_env\<lparr>extentStore_SnapShot := ([], Some ''extent store closed'')\<rparr>"
  let ?e2 = "sample_env\<lparr>blobStore_Snapshot := ([], Some ''blob store closed'')\<rparr>"
  have h1: "snd (extentStore_SnapShot ?e1) = Some ''extent store closed''" by simp
  have h2: "snd (extentStore_SnapShot ?e2) = None" by (simp add: sample_env_def)
  have h3: "snd (blobStore_Snapshot ?e2) = Some ''blob store closed''" by simp
  from conjunct1[OF Load_failure_response[of ?e1 "''extent store closed''" sample_K sample_dp],
      rule_format, OF h1]
  have 1: "resp_Status (Load ?e1 sample_K sample_dp) = 2 \<and>
      resp_Result (Load ?e1 sample_K sample_dp) = ''extent store closed'' \<and>
      resp_PartitionSnapshot (Load ?e1 sample_K sample_dp) = []"
    by (simp add: sample_K_def)
  from conjunct2[OF Load_failure_response[of ?e2 "''blob store closed''" sample_K sample_dp],
      rule_format, OF conjI[OF h2 h3]]
  have 2: "resp_Status (Load ?e2 sample_K sample_dp) = 2 \<and>
      resp_Result (Load ?e2 sample_K sample_dp) = ''blob store closed''"
    by (simp add: sample_K_def)
  from h1 h2 h3 1 2 show ?thesis by blast
qed

text \<open>
  Claim C1 as stated fails: the extent store answers \<open>[1, 2, 3]\<close>, the blob store
  fails, and the failure response still carries \<open>[1, 2, 3]\<close>.
\<close>

theorem Load_partial_snapshot_counterexample:
  "blobStore_Snapshot (sample_env\<lparr>blobStore_Snapshot := ([], Some ''blob store closed'')\<rparr>)
     = ([], Some ''blob store closed'') \<and>
   resp_Status (Load (sample_env\<lparr>blobStore_Snapshot := ([], Some ''blob store closed'')\<rparr>)
     sample_K sample_dp) = TaskFail sample_K \<and>
   resp_PartitionSnapshot (Load (sample_env\<lparr>blobStore_Snapshot := ([], Some ''blob store closed'')\<rparr>)
     sample_K sample_dp) = [1, 2, 3]"
  by (simp add: Load_def sample_env_def Let_def)

section \<open>Properties of the status tick\<close>

lemma float64_of_int_exact: "\<bar>x\<bar> < 2 ^ 53 \<Longrightarrow> float64_of_int x = x"
  by (simp add: float64_of_int_def Let_def)

lemma int_of_float64_exact: "\<bar>x\<bar> < 2 ^ 53 \<Longrightarrow> int_of_float64 x = x"
  by (simp add: int_of_float64_def)

lemma computeUsage_keeps:
  "partitionSize (computeUsage env dp) = partitionSize dp \<and>
   isLeader (computeUsage env dp) = isLeader dp"
  by (simp add: computeUsage_def split: sum.splits)

text \<open>
  Claim C5. After a status tick the status of the partition is the minimum of the
  target (\<^verbatim>\<open>ReadWrite\<close> when \<open>used < size\<close>, \<^verbatim>\<open>ReadOnly\<close> otherwise, with \<open>used\<close> as the
  tick recomputed it) and the status of the disk; when the disk is unavailable, and
  that is the most restrictive state, so is the partition, whatever its usage. The
  statuses are values that \<^verbatim>\<open>float64\<close> holds exactly.
\<close>

theorem statusUpdate_min_of_target_and_disk:
  assumes "\<bar>ReadWrite K\<bar> < 2 ^ 53" and "\<bar>ReadOnly K\<bar> < 2 ^ 53" and "\<bar>Status disk\<bar> < 2 ^ 53"
  shows "partitionStatus (fst (statusUpdate env K disk dp)) =
           min (if used (fst (statusUpdate env K disk dp)) <
                   partitionSize (fst (statusUpdate env K disk dp))
                then ReadWrite K else ReadOnly K)
               (Status disk) \<and>
         (Status disk = Unavaliable K \<and> Unavaliable K \<le> ReadOnly K \<and> Unavaliable K \<le> ReadWrite K
            \<longrightarrow> partitionStatus (fst (statusUpdate env K disk dp)) = Unavaliable K)"
proof -
  let ?dp = "computeUsage env dp"
  let ?target = "if used ?dp < partitionSize ?dp then ReadWrite K else ReadOnly K"
  have t: "\<bar>?target\<bar> < 2 ^ 53" using assms by simp
  have m: "\<bar>min ?target (Status disk)\<bar> < 2 ^ 53"
    using t assms(3) by (simp add: min_def)
  have "partitionStatus (fst (statusUpdate env K disk dp)) =
          int_of_float64 (min (float64_of_int ?target) (float64_of_int (Status disk)))"
    by (simp add: statusUpdate_def Let_def not_less)
  also have "\<dots> = min ?target (Status disk)"
    using t m assms(3) by (simp only: float64_of_int_exact int_of_float64_exact)
  finally have 1: "partitionStatus (fst (statusUpdate env K disk dp)) = min ?target (Status disk)" .
  have u: "used (fst (statusUpdate env K disk dp)) = used ?dp"
    and s: "partitionSize (fst (statusUpdate env K disk dp)) = partitionSize ?dp"
    by (simp_all add: statusUpdate_def Let_def)
  from 1 u s show ?thesis by (auto simp add: min_def)
qed

text \<open>
  With 300 bytes in the directory: an unavailable disk, a partition of 1024 bytes on
  a writable disk, and a partition of 300 bytes on a writable disk.
\<close>

theorem statusUpdate_min_of_target_and_disk_witness:
  "\<bar>ReadWrite sample_K\<bar> < 2 ^ 53 \<and> \<bar>ReadOnly sample_K\<bar> < 2 ^ 53 \<and>
   \<bar>Status (sample_disk\<lparr>Status := - 1\<rparr>)\<bar> < 2 ^ 53 \<and>
   Status (sample_disk\<lparr>Status := - 1\<rparr>) = Unavaliable sample_K \<and>
   Unavaliable sample_K \<le> ReadOnly sample_K \<and> Unavaliable sample_K \<le> ReadWrite sample_K \<and>
   used (fst (statusUpdate sample_env sample_K (sample_disk\<lparr>Status := - 1\<rparr>) sample_dp)) = 300 \<and>
   partitionStatus (fst (statusUpdate sample_env sample_K (sample_disk\<lparr>Status := - 1\<rparr>) sample_dp))
     = - 1 \<and>
   partitionStatus (fst (statusUpdate sample_env sample_K sample_disk sample_dp)) = 2 \<and>
   partitionStatus (fst (statusUpdate sample_env sample_K sample_disk (sample_dp\<lparr>partitionSize := 300\<rparr>)))
     = 1"
proof -
  let ?d = "sample_disk\<lparr>Status := - 1\<rparr>"
  have b: "\<bar>ReadWrite sample_K\<bar> < 2 ^ 53" "\<bar>ReadOnly sample_K\<bar> < 2 ^ 53"
    "\<bar>Status ?d\<bar> < 2 ^ 53" "\<bar>Status sample_disk\<bar> < 2 ^ 53"
    by (simp_all add: sample_K_def sample_disk_def)
  have o: "Status ?d = Unavaliable sample_K" "Unavaliable sample_K \<le> ReadOnly sample_K"
    "Unavaliable sample_K \<le> ReadWrite sample_K"
    by (simp_all add: sample_K_def)
  have u: "used (fst (statusUpdate sample_env sample_K d p)) = 300" for d p
    by (simp add: statusUpdate_def computeUsage_def sample_env_def Let_def)
  have s: "partitionSize (fst (statusUpdate sample_env sample_K d p)) = partitionSize p" for d p
    by (simp add: statusUpdate_def computeUsage_def sample_env_def Let_def)
  from statusUpdate_min_of_target_and_disk[OF b(1) b(2) b(3), of sample_env sample_dp] o
  have 1: "partitionStatus (fst (statusUpdate sample_env sample_K ?d sample_dp)) = - 1"
    by (simp add: sample_K_def)
  from statusUpdate_min_of_target_and_disk[OF b(1) b(2) b(4), of sample_env sample_dp, unfolded u s]
  have 2: "partitionStatus (fst (statusUpdate sample_env sample_K sample_disk sample_dp)) = 2"
    by (simp add: sample_K_def sample_dp_def sample_disk_def)
  from statusUpdate_min_of_target_and_disk[OF b(1) b(2) b(4), of sample_env
      "sample_dp\<lparr>partitionSize := 300\<rparr>", unfolded u s]
  have 3: "partitionStatus (fst (statusUpdate sample_env sample_K sample_disk
      (sample_dp\<lparr>partitionSize := 300\<rparr>))) = 1"
    by (simp add: sample_K_def sample_dp_def sample_disk_def)
  from b o u 1 2 3 show ?thesis by blast
qed


section \<open>Properties of construction\<close>

lemma LoadDataPartition_error_atomic:
  assumes "LoadDataPartition env K partitionDir disk fs = (dp, Some err, disk')"
  shows "dp = None \<and> disk' = disk"
  using assms newDataPartition_error
  by (fastforce simp add: LoadDataPartition_def Let_def split: option.splits sum.splits prod.splits)

lemma CreateDataPartition_error_cases:
  assumes "CreateDataPartition env K volId partId disk psize partitionType fs = (dp, Some err, disk', fs')"
  shows "(dp = None \<and> disk' = disk) \<or>
         (\<exists>p. dp = Some p \<and> disk' = AttachDataPartition disk p)"
  using assms newDataPartition_error newDataPartition_fields
  by (fastforce simp add: CreateDataPartition_def Let_def split: option.splits sum.splits prod.splits)

text \<open>
  Claim C2 says that a construction that returns an error returns no partition and
  leaves none attached to the disk. That holds for \<^verbatim>\<open>LoadDataPartition\<close> and for the
  failures inside \<^verbatim>\<open>newDataPartition\<close> (the two lemmas above), whose error returns come
  before the partition is attached. \<^verbatim>\<open>CreateDataPartition\<close> opens and writes the meta
  file after \<^verbatim>\<open>newDataPartition\<close> has attached the partition, and returns from a
  failure there as it stands: when the meta file cannot be opened, the call returns
  the error together with the partition, and the partition stays attached.
\<close>

theorem CreateDataPartition_meta_failure_leaves_attached:
  "CreateDataPartition (sample_env\<lparr>os_OpenFile := \<lambda>p. Some ''permission denied''\<rparr>) sample_K
     ''vol1'' 7 sample_disk 1024 ''extent'' Map.empty
   = (Some (sample_dp\<lparr>replicaHosts := [], isLeader := False\<rparr>),
      Some (External ''permission denied''),
      sample_disk\<lparr>attached := [sample_dp\<lparr>replicaHosts := [], isLeader := False\<rparr>]\<rparr>,
      Map.empty)"
proof -
  have itoa: "Itoa 7 = ''7''" "Itoa 1024 = ''1024''"
    by (simp_all add: Itoa_def nat_digits.simps digit_char_def)
  show ?thesis
    by (simp add: CreateDataPartition_def newDataPartition_def sample_env_def sample_K_def
        sample_disk_def sample_dp_def DataPartitionMetaFileName_def DataPartitionPrefix_def
        AttachDataPartition_def Let_def itoa)
qed










section \<open>Properties of \<^verbatim>\<open>GetObjects\<close>\<close>

lemma GetObjects_loop_Some_below_max:
  assumes "GetObjects_loop GetObject K blobfileID startOid lastOid objects = Some result"
  shows "lastOid \<noteq> - 1"
proof (rule GetObjects_loop.raw_induct
    [where P = "\<lambda>GetObject K blobfileID startOid lastOid objects result. lastOid \<noteq> - 1",
     OF _ assms])
  fix f :: "(uint32 \<Rightarrow> uint64 \<Rightarrow> string + Object) \<Rightarrow> Consts \<Rightarrow> uint32 \<Rightarrow> uint64 \<Rightarrow> uint64
             \<Rightarrow> Object list \<Rightarrow> Object list option"
    and G K' b and s l :: uint64 and acc y
  assume IH: "\<And>G K b s l acc y. f G K b s l acc = Some y \<Longrightarrow> l \<noteq> - 1"
    and step: "(if s \<le> l
      then f G K' b (s + 1) l
            (acc @ [case G b s of Inl err \<Rightarrow> \<lparr>Oid = s, Size = MarkDeleteObject K'\<rparr>
                    | Inr needle \<Rightarrow> needle])
      else Some acc) = Some y"
  show "l \<noteq> - 1"
  proof (cases "s \<le> l")
    case True
    with step IH show ?thesis by simp
  next
    case False
    then show ?thesis by auto
  qed
qed

lemma GetObjects_loop_below_max:
  fixes startOid lastOid :: uint64
  assumes "lastOid \<noteq> - 1"
  shows "GetObjects_loop GetObject K blobfileID startOid lastOid objects =
           Some (objects @
                 map (\<lambda>n. case GetObject blobfileID (of_nat n) of
                             Inl err \<Rightarrow> \<lparr>Oid = of_nat n, Size = MarkDeleteObject K\<rparr>
                           | Inr needle \<Rightarrow> needle)
                     [unat startOid..<Suc (unat lastOid)])"
    (is "_ = Some (objects @ map ?pick _)")
proof (induction "Suc (unat lastOid) - unat startOid" arbitrary: startOid objects)
  case 0
  then have "\<not> startOid \<le> lastOid" by (simp add: word_le_nat_alt)
  moreover from 0 have "[unat startOid..<Suc (unat lastOid)] = []" by simp
  ultimately show ?case by (subst GetObjects_loop.simps) (simp del: upt_Suc)
next
  case (Suc n)
  then have le: "startOid \<le> lastOid" by (simp add: word_le_nat_alt)
  have "startOid \<noteq> - 1"
  proof
    assume "startOid = - 1"
    with le have "- 1 \<le> lastOid" by simp
    then have "lastOid = - 1" using word_n1_ge[of lastOid] by (rule order_antisym[rotated])
    with assms show False by simp
  qed
  then have "1 + startOid \<noteq> 0"
    by (metis add.commute add_eq_0_iff)
  then have "unat (1 + startOid) = Suc (unat startOid)" by (rule unatSuc)
  then have u: "unat (startOid + 1) = Suc (unat startOid)" by (simp add: add.commute)
  with Suc.hyps(2) have n: "n = Suc (unat lastOid) - unat (startOid + 1)" by simp
  from le have "unat startOid < Suc (unat lastOid)" by (simp add: word_le_nat_alt)
  then have upt: "[unat startOid..<Suc (unat lastOid)] =
      unat startOid # [unat (startOid + 1)..<Suc (unat lastOid)]"
    unfolding u by (rule upt_conv_Cons)
  have pk: "?pick (unat startOid) =
      (case GetObject blobfileID startOid of
         Inl err \<Rightarrow> \<lparr>Oid = startOid, Size = MarkDeleteObject K\<rparr>
       | Inr needle \<Rightarrow> needle)"
    by (simp split: sum.split)
  have "GetObjects_loop GetObject K blobfileID startOid lastOid objects =
      GetObjects_loop GetObject K blobfileID (startOid + 1) lastOid
        (objects @ [?pick (unat startOid)])"
    unfolding pk using le by (subst GetObjects_loop.simps) (simp only: if_True)
  also have "\<dots> = Some ((objects @ [?pick (unat startOid)]) @
      map ?pick [unat (startOid + 1)..<Suc (unat lastOid)])"
    by (rule Suc.hyps(1)[OF n])
  also have "\<dots> = Some (objects @ map ?pick [unat startOid..<Suc (unat lastOid)])"
    unfolding upt by simp
  finally show ?case .
qed

text \<open>
  Below the largest object id the loop does what claim C8 says: for
  \<open>startOid \<le> lastOid < 2 ^ 64 - 1\<close> it returns \<open>lastOid - startOid + 1\<close> references,
  the \<open>i\<close>-th being the object the store has for \<open>startOid + i\<close>, or the placeholder
  marked deleted with that oid when the lookup fails.
\<close>

lemma GetObjects_dense_below_max:
  fixes startOid lastOid :: uint64
  assumes "lastOid \<noteq> - 1" and "startOid \<le> lastOid"
  shows "\<exists>objects. GetObjects GetObject K blobfileID startOid lastOid = Some objects \<and>
           length objects = unat lastOid - unat startOid + 1 \<and>
           (\<forall>i < length objects.
              objects ! i =
                (case GetObject blobfileID (startOid + of_nat i) of
                   Inl err \<Rightarrow> \<lparr>Oid = startOid + of_nat i, Size = MarkDeleteObject K\<rparr>
                 | Inr needle \<Rightarrow> needle))"
proof -
  let ?pick = "\<lambda>n. case GetObject blobfileID (of_nat n) of
                      Inl err \<Rightarrow> \<lparr>Oid = of_nat n, Size = MarkDeleteObject K\<rparr>
                    | Inr needle \<Rightarrow> needle"
  let ?oids = "[unat startOid..<Suc (unat lastOid)]"
  from assms(2) have le: "unat startOid \<le> unat lastOid" by (simp add: word_le_nat_alt)
  have g: "GetObjects GetObject K blobfileID startOid lastOid = Some (map ?pick ?oids)"
    using GetObjects_loop_below_max[OF assms(1), of GetObject K blobfileID startOid "[]"]
    by (simp add: GetObjects_def del: upt_Suc)
  have len: "length (map ?pick ?oids) = unat lastOid - unat startOid + 1"
    using le by (simp del: upt_Suc)
  have nth: "map ?pick ?oids ! i =
        (case GetObject blobfileID (startOid + of_nat i) of
           Inl err \<Rightarrow> \<lparr>Oid = startOid + of_nat i, Size = MarkDeleteObject K\<rparr>
         | Inr needle \<Rightarrow> needle)"
    if "i < length (map ?pick ?oids)" for i
  proof -
    from that have i: "i < length ?oids" by (simp del: upt_Suc)
    then have "unat startOid + i < Suc (unat lastOid)" by (simp del: upt_Suc)
    then have "?oids ! i = unat startOid + i" by (rule nth_upt)
    moreover have "(of_nat (unat startOid + i) :: uint64) = startOid + of_nat i" by simp
    ultimately have "?pick (?oids ! i) =
        (case GetObject blobfileID (startOid + of_nat i) of
           Inl err \<Rightarrow> \<lparr>Oid = startOid + of_nat i, Size = MarkDeleteObject K\<rparr>
         | Inr needle \<Rightarrow> needle)"
      by (simp only:)
    then show ?thesis using i by (simp only: nth_map)
  qed
  from g len nth show ?thesis by blast
qed

text \<open>
  Claim C8 says that \<^verbatim>\<open>GetObjects\<close> returns \<open>lastOid - startOid + 1\<close> references for
  every \<open>startOid \<le> lastOid\<close>. With \<open>lastOid = 2 ^ 64 - 1\<close> the condition
  \<^verbatim>\<open>startOid <= lastOid\<close> holds for every \<^verbatim>\<open>uint64\<close> and \<^verbatim>\<open>startOid++\<close> wraps to 0: the
  call does not return, whatever the store and the first oid.
\<close>

theorem GetObjects_max_oid_never_returns:
  "GetObjects GetObject K blobfileID startOid 18446744073709551615 = None"
proof -
  have m: "(18446744073709551615 :: uint64) = - 1" by simp
  have "GetObjects_loop GetObject K blobfileID startOid (- 1) [] = None"
  proof (cases "GetObjects_loop GetObject K blobfileID startOid (- 1) []")
    case None
    then show ?thesis .
  next
    case (Some result)
    from GetObjects_loop_Some_below_max[OF Some] show ?thesis by simp
  qed
  then show ?thesis unfolding m GetObjects_def .
qed

lemma GetObjects_example:
  "GetObjects (\<lambda>b oid. if oid = 6 then Inl ''no such object'' else Inr \<lparr>Oid = oid, Size = 10\<rparr>)
     sample_K 1 5 8 =
   Some [\<lparr>Oid = 5, Size = 10\<rparr>, \<lparr>Oid = 6, Size = MarkDeleteObject sample_K\<rparr>,
         \<lparr>Oid = 7, Size = 10\<rparr>, \<lparr>Oid = 8, Size = 10\<rparr>]"
  by (simp add: GetObjects_def GetObjects_loop.simps)


section \<open>Properties of \<^verbatim>\<open>MergeExtentStoreRepair\<close>\<close>













end
